theory Spec2Isabelle
  imports Main
begin

section \<open>Python values and the built-ins the server uses\<close>

text \<open>
  The server (\<^verbatim>\<open>weather_server.py\<close>) reads JSON bodies with \<^verbatim>\<open>response.json()\<close> and
  works on the resulting Python values with \<^verbatim>\<open>.get\<close>, truth tests, iteration and
  f-strings. The model keeps those values untyped, as the code does.

  \<^item> A Python \<^verbatim>\<open>str\<close> is modelled by its UTF-8 encoding, a \<^typ>\<open>string\<close>. Concatenation,
    \<^verbatim>\<open>join\<close> and the emptiness test commute with the encoding.
  \<^item> A Python \<^verbatim>\<open>float\<close> is \<open>Finite neg m e\<close> for the value \<open>(-1)\<^sup>n\<^sup>e\<^sup>g \<sqdot> m \<sqdot> 2\<^sup>e\<close>
    (every binary64 number has this form), an infinity with its sign, or a NaN.
  \<^item> A \<^verbatim>\<open>dict\<close> is the list of its items; \<^verbatim>\<open>d.get(k, default)\<close> is a lookup in it.
  \<^item> An exception is a value \<open>Inl e\<close> of the result type \<open>py_error + 'a\<close>.
\<close>

datatype pyfloat = Finite bool nat int | Infinity bool | NaN

datatype json =
    JNull
  | JBool bool
  | JInt int
  | JFloat pyfloat
  | JStr string
  | JList "json list"
  | JObj "(string \<times> json) list"

datatype py_error = AttributeError | TypeError

text \<open>
  Three built-ins are not computed by the program and are parameters of the model:
  \<^verbatim>\<open>str.upper\<close> (Unicode case mapping), \<^verbatim>\<open>repr\<close> of a float (the shortest text that reads
  back as the same float) and \<^verbatim>\<open>repr\<close> of a string (quoting and escaping).
\<close>

record builtins =
  str_upper :: "string \<Rightarrow> string"
  float_repr :: "pyfloat \<Rightarrow> string"
  str_repr :: "string \<Rightarrow> string"

definition and_then :: "'e + 'a \<Rightarrow> ('a \<Rightarrow> 'e + 'b) \<Rightarrow> 'e + 'b" where
  "and_then r f = (case r of Inl e \<Rightarrow> Inl e | Inr x \<Rightarrow> f x)"

text \<open>Truth value of a Python object, as tested by \<^verbatim>\<open>if not x\<close>.\<close>

fun truthy :: "json \<Rightarrow> bool" where
  "truthy JNull = False"
| "truthy (JBool b) = b"
| "truthy (JInt i) = (i \<noteq> 0)"
| "truthy (JFloat f) = (case f of Finite neg m e \<Rightarrow> m \<noteq> 0 | _ \<Rightarrow> True)"
| "truthy (JStr s) = (s \<noteq> [])"
| "truthy (JList xs) = (xs \<noteq> [])"
| "truthy (JObj kvs) = (kvs \<noteq> [])"

text \<open>\<^verbatim>\<open>x.get(k, default)\<close>: only a dict has the attribute \<^verbatim>\<open>get\<close>.\<close>

fun dict_get :: "json \<Rightarrow> string \<Rightarrow> json \<Rightarrow> py_error + json" where
  "dict_get (JObj kvs) k d = Inr (case map_of kvs k of None \<Rightarrow> d | Some v \<Rightarrow> v)"
| "dict_get _ k d = Inl AttributeError"

text \<open>
  \<^verbatim>\<open>for x in v\<close>: a list yields its elements, a dict its keys, a string its characters
  (one string each; the model yields one per byte, and every element is a \<open>JStr\<close> either
  way); the other values are not iterable.
\<close>

fun iterate :: "json \<Rightarrow> py_error + json list" where
  "iterate (JList xs) = Inr xs"
| "iterate (JObj kvs) = Inr (map (\<lambda>kv. JStr (fst kv)) kvs)"
| "iterate (JStr s) = Inr (map (\<lambda>c. JStr [c]) s)"
| "iterate _ = Inl TypeError"

text \<open>Running a fallible function over a list, left to right, up to the first exception.\<close>

fun map_err :: "('a \<Rightarrow> 'e + 'b) \<Rightarrow> 'a list \<Rightarrow> 'e + 'b list" where
  "map_err f [] = Inr []"
| "map_err f (x # xs) =
     (case f x of Inl e \<Rightarrow> Inl e
      | Inr y \<Rightarrow> (case map_err f xs of Inl e \<Rightarrow> Inl e | Inr ys \<Rightarrow> Inr (y # ys)))"

text \<open>\<^verbatim>\<open>sep.join(xs)\<close>.\<close>

fun str_join :: "string \<Rightarrow> string list \<Rightarrow> string" where
  "str_join sep [] = []"
| "str_join sep [x] = x"
| "str_join sep (x # y # ys) = x @ sep @ str_join sep (y # ys)"

subsection \<open>Text of numbers\<close>

definition digit_char :: "nat \<Rightarrow> char" where
  "digit_char d = ''0123456789'' ! d"

fun decimal :: "nat \<Rightarrow> string" where
  "decimal n = (if n < 10 then [digit_char n] else decimal (n div 10) @ [digit_char (n mod 10)])"

definition str_int :: "int \<Rightarrow> string" where
  "str_int i = (if i < 0 then ''-'' @ decimal (nat (- i)) else decimal (nat i))"

text \<open>
  The format \<^verbatim>\<open>:.4f\<close>. \<open>scaled4 m e\<close> is \<open>m \<sqdot> 2\<^sup>e \<sqdot> 10\<^sup>4\<close> rounded to the nearest integer,
  a tie to the even one (the conversion is correctly rounded); the text is the sign, the
  integer part, a point and four digits.
\<close>

definition scaled4 :: "nat \<Rightarrow> int \<Rightarrow> nat" where
  "scaled4 m e =
     (if 0 \<le> e then m * 2 ^ nat e * 10000
      else
        let d = 2 ^ nat (- e); a = m * 10000; q = a div d; r = a mod d
        in if 2 * r < d then q
           else if d < 2 * r then q + 1
           else if even q then q else q + 1)"

definition four_digits :: "nat \<Rightarrow> string" where
  "four_digits k =
     [digit_char (k div 1000 mod 10), digit_char (k div 100 mod 10),
      digit_char (k div 10 mod 10), digit_char (k mod 10)]"

fun format_4f :: "pyfloat \<Rightarrow> string" where
  "format_4f (Finite neg m e) =
     (if neg then ''-'' else []) @ decimal (scaled4 m e div 10000) @ ''.''
       @ four_digits (scaled4 m e mod 10000)"
| "format_4f (Infinity neg) = (if neg then ''-inf'' else ''inf'')"
| "format_4f NaN = ''nan''"

subsection \<open>\<^verbatim>\<open>repr\<close> and \<^verbatim>\<open>str\<close> of a value\<close>

fun py_repr :: "builtins \<Rightarrow> json \<Rightarrow> string" where
  "py_repr py JNull = ''None''"
| "py_repr py (JBool b) = (if b then ''True'' else ''False'')"
| "py_repr py (JInt i) = str_int i"
| "py_repr py (JFloat f) = float_repr py f"
| "py_repr py (JStr s) = str_repr py s"
| "py_repr py (JList xs) = ''['' @ str_join '', '' (map (py_repr py) xs) @ '']''"
| "py_repr py (JObj kvs) =
     ''{'' @ str_join '', '' (map (\<lambda>(k, v). str_repr py k @ '': '' @ py_repr py v) kvs) @ ''}''"

text \<open>What an f-string field \<^verbatim>\<open>{v}\<close> inserts: a string as it is, anything else by \<^verbatim>\<open>repr\<close>.\<close>

definition py_str :: "builtins \<Rightarrow> json \<Rightarrow> string" where
  "py_str py v = (case v of JStr s \<Rightarrow> s | _ \<Rightarrow> py_repr py v)"

section \<open>The server\<close>

definition NWS_API_BASE :: string where
  "NWS_API_BASE = ''https://api.weather.gov''"

definition USER_AGENT :: string where
  "USER_AGENT = ''weather-app/1.0''"

definition nl :: string where
  "nl = ''\<newline>''"

definition degree :: string where
  "degree = [CHR 0xC2, CHR 0xB0]"

subsection \<open>\<^verbatim>\<open>make_nws_request\<close>\<close>

text \<open>
  The HTTP client is a parameter: \<open>http url headers\<close> is \<open>Some body\<close> when the GET, the
  status check and the JSON parse all succeed, and \<open>None\<close> when any of them raises. The
  argument \<open>url\<close> is whatever value the caller passes. \<^verbatim>\<open>make_nws_request\<close> turns the
  exception into Python's \<^verbatim>\<open>None\<close> (the line it prints is not modelled).
\<close>

type_synonym http_get = "json \<Rightarrow> (string \<times> string) list \<Rightarrow> json option"

definition request_headers :: "(string \<times> string) list" where
  "request_headers = [(''User-Agent'', USER_AGENT), (''Accept'', ''application/geo+json'')]"

definition make_nws_request :: "http_get \<Rightarrow> json \<Rightarrow> json" where
  "make_nws_request http url =
     (case http url request_headers of None \<Rightarrow> JNull | Some body \<Rightarrow> body)"

subsection \<open>\<^verbatim>\<open>format_alert\<close>\<close>

definition format_alert :: "builtins \<Rightarrow> json \<Rightarrow> py_error + string" where
  "format_alert py feature =
     and_then (dict_get feature ''properties'' (JObj [])) (\<lambda>props.
     and_then (dict_get props ''event'' (JStr ''Unknown'')) (\<lambda>event.
     and_then (dict_get props ''areaDesc'' (JStr ''Unknown'')) (\<lambda>area.
     and_then (dict_get props ''severity'' (JStr ''Unknown'')) (\<lambda>severity.
     and_then (dict_get props ''status'' (JStr ''Unknown'')) (\<lambda>status.
     and_then (dict_get props ''headline'' (JStr ''No headline'')) (\<lambda>headline.
       Inr (str_join nl
         [''Event: '' @ py_str py event,
          ''Area: '' @ py_str py area,
          ''Severity: '' @ py_str py severity,
          ''Status: '' @ py_str py status,
          ''Headline: '' @ py_str py headline,
          ''---''])))))))"

subsection \<open>\<^verbatim>\<open>get_alerts\<close>\<close>

definition alerts_url :: "builtins \<Rightarrow> string \<Rightarrow> string" where
  "alerts_url py state = NWS_API_BASE @ ''/alerts?area='' @ str_upper py state"

definition get_alerts :: "builtins \<Rightarrow> http_get \<Rightarrow> string \<Rightarrow> py_error + string" where
  "get_alerts py http state =
     (let state_code = str_upper py state;
          alerts_data = make_nws_request http (JStr (alerts_url py state))
      in if \<not> truthy alerts_data then Inr ''Failed to retrieve alerts data''
         else
           and_then (dict_get alerts_data ''features'' (JList [])) (\<lambda>features.
             if \<not> truthy features then Inr (''No active alerts for '' @ state_code)
             else
               and_then (iterate features) (\<lambda>fs.
               and_then (map_err (format_alert py) fs) (\<lambda>formatted_alerts.
                 Inr (''Active alerts for '' @ state_code @ '':'' @ nl @ nl
                        @ str_join nl formatted_alerts)))))"

subsection \<open>\<^verbatim>\<open>get_forecast\<close>\<close>

definition points_url :: "pyfloat \<Rightarrow> pyfloat \<Rightarrow> string" where
  "points_url latitude longitude =
     NWS_API_BASE @ ''/points/'' @ format_4f latitude @ '','' @ format_4f longitude"

text \<open>The body of the loop over the periods (source lines 94 to 100).\<close>

definition period_text :: "builtins \<Rightarrow> json \<Rightarrow> py_error + string" where
  "period_text py period =
     and_then (dict_get period ''name'' (JStr ''Unknown'')) (\<lambda>name.
     and_then (dict_get period ''temperature'' (JStr ''Unknown'')) (\<lambda>temperature.
     and_then (dict_get period ''temperatureUnit'' (JStr ''F'')) (\<lambda>unit.
     and_then (dict_get period ''windSpeed'' (JStr ''Unknown'')) (\<lambda>speed.
     and_then (dict_get period ''windDirection'' (JStr [])) (\<lambda>direction.
     and_then (dict_get period ''shortForecast'' (JStr ''No forecast available'')) (\<lambda>short.
       Inr (str_join nl
         [py_str py name @ '':'',
          ''Temperature: '' @ py_str py temperature @ degree @ py_str py unit,
          ''Wind: '' @ py_str py speed @ '' '' @ py_str py direction,
          py_str py short,
          ''---''])))))))"

definition grid_failure :: "builtins \<Rightarrow> pyfloat \<Rightarrow> pyfloat \<Rightarrow> string" where
  "grid_failure py latitude longitude =
     ''Failed to retrieve grid point data for coordinates: '' @ float_repr py latitude
       @ '', '' @ float_repr py longitude
       @ ''. This location may not be supported by the NWS API (only US locations are supported).''"

text \<open>
  The two nested lookups, \<^verbatim>\<open>points_data.get("properties", {}).get("forecast")\<close> (line 78) and
  \<^verbatim>\<open>forecast_data.get("properties", {}).get("periods", [])\<close> (line 87).
\<close>

definition forecast_url_of :: "json \<Rightarrow> py_error + json" where
  "forecast_url_of points_data =
     and_then (dict_get points_data ''properties'' (JObj [])) (\<lambda>props.
       dict_get props ''forecast'' JNull)"

definition periods_of :: "json \<Rightarrow> py_error + json" where
  "periods_of forecast_data =
     and_then (dict_get forecast_data ''properties'' (JObj [])) (\<lambda>props.
       dict_get props ''periods'' (JList []))"

definition get_forecast ::
  "builtins \<Rightarrow> http_get \<Rightarrow> pyfloat \<Rightarrow> pyfloat \<Rightarrow> py_error + string" where
  "get_forecast py http latitude longitude =
     (let points_data = make_nws_request http (JStr (points_url latitude longitude))
      in if \<not> truthy points_data then Inr (grid_failure py latitude longitude)
         else
           and_then (forecast_url_of points_data) (\<lambda>forecast_url.
             if \<not> truthy forecast_url
             then Inr ''Failed to get forecast URL from grid point data''
             else
               let forecast_data = make_nws_request http forecast_url
               in if \<not> truthy forecast_data then Inr ''Failed to retrieve forecast data''
                  else
                    and_then (periods_of forecast_data) (\<lambda>periods.
                      if \<not> truthy periods then Inr ''No forecast periods available''
                      else
                        and_then (iterate periods) (\<lambda>ps.
                        and_then (map_err (period_text py) ps) (\<lambda>formatted_forecast.
                          Inr (''Forecast for '' @ float_repr py latitude @ '', ''
                                 @ float_repr py longitude @ '':'' @ nl @ nl
                                 @ str_join nl formatted_forecast))))))"

subsection \<open>Resource adapters\<close>

definition alerts_resource :: "builtins \<Rightarrow> http_get \<Rightarrow> string \<Rightarrow> py_error + string" where
  "alerts_resource py http state = get_alerts py http state"

definition forecast_resource ::
  "builtins \<Rightarrow> http_get \<Rightarrow> pyfloat \<Rightarrow> pyfloat \<Rightarrow> py_error + string" where
  "forecast_resource py http latitude longitude = get_forecast py http latitude longitude"

section \<open>Payload shapes and example data\<close>

text \<open>
  An alert record, as the upstream API documents it, is an object whose \<^verbatim>\<open>properties\<close> entry
  is absent or an object; \<open>alert_fields\<close> gives its fields.
\<close>

fun alert_fields :: "json \<Rightarrow> (string \<times> json) list option" where
  "alert_fields (JObj kvs) =
     (case map_of kvs ''properties'' of
        None \<Rightarrow> Some []
      | Some (JObj flds) \<Rightarrow> Some flds
      | Some _ \<Rightarrow> None)"
| "alert_fields _ = None"

text \<open>The text shown for field \<open>k\<close> of a record: its value, or the placeholder when absent.\<close>

definition field_text :: "builtins \<Rightarrow> (string \<times> json) list \<Rightarrow> string \<Rightarrow> string \<Rightarrow> string" where
  "field_text py flds k placeholder =
     (case map_of flds k of None \<Rightarrow> placeholder | Some v \<Rightarrow> py_str py v)"

subsection \<open>An interpretation of the built-ins, for the examples\<close>

text \<open>
  \<open>plain\<close> agrees with CPython on the values the examples use: \<^verbatim>\<open>upper\<close> on ASCII text,
  \<^verbatim>\<open>repr\<close> of a float whose exact decimal expansion is short (at most 15 significant
  digits, magnitude from \<open>10\<^sup>-\<^sup>4\<close> up to \<open>10\<^sup>1\<^sup>6\<close>), and \<^verbatim>\<open>repr\<close> of a string without
  quotes, backslashes or control characters.
\<close>

definition upper_ascii :: "char \<Rightarrow> char" where
  "upper_ascii c =
     (case map_of (zip ''abcdefghijklmnopqrstuvwxyz'' ''ABCDEFGHIJKLMNOPQRSTUVWXYZ'') c of
        None \<Rightarrow> c | Some u \<Rightarrow> u)"

definition exact_repr :: "pyfloat \<Rightarrow> string" where
  "exact_repr f =
     (case f of
        Finite neg m e \<Rightarrow>
          (if neg then ''-'' else []) @
          (if 0 \<le> e then decimal (m * 2 ^ nat e) @ ''.0''
           else
             let k = nat (- e); num = m * 5 ^ k; fp = decimal (num mod 10 ^ k);
                 digits = replicate (k - length fp) (CHR ''0'') @ fp;
                 kept = rev (dropWhile (\<lambda>c. c = CHR ''0'') (rev digits))
             in decimal (num div 10 ^ k) @ ''.'' @ (if kept = [] then ''0'' else kept))
      | Infinity neg \<Rightarrow> (if neg then ''-inf'' else ''inf'')
      | NaN \<Rightarrow> ''nan'')"

definition quoted :: "string \<Rightarrow> string" where
  "quoted s = [CHR 0x27] @ s @ [CHR 0x27]"

definition plain :: builtins where
  "plain = \<lparr>str_upper = map upper_ascii, float_repr = exact_repr, str_repr = quoted\<rparr>"

definition flood_feature :: json where
  "flood_feature =
     JObj [(''id'', JStr ''urn:oid:1''),
           (''properties'', JObj [(''event'', JStr ''Flood Warning''), (''severity'', JStr ''Severe'')])]"

definition flood_http :: http_get where
  "flood_http url hdrs =
     (if url = JStr ''https://api.weather.gov/alerts?area=CA'' \<and> hdrs = request_headers
      then Some (JObj [(''features'', JList [flood_feature])])
      else None)"

definition failing_http :: http_get where
  "failing_http url hdrs = None"

definition empty_body_http :: http_get where
  "empty_body_http url hdrs = Some (JObj [])"

definition no_alerts_http :: http_get where
  "no_alerts_http url hdrs =
     Some (JObj [(''type'', JStr ''FeatureCollection''), (''features'', JList [])])"

text \<open>The coordinates 40.5 and -75.25 of the examples (both are binary64 numbers).\<close>

definition example_lat :: pyfloat where
  "example_lat = Finite False 81 (- 1)"

definition example_lon :: pyfloat where
  "example_lon = Finite True 301 (- 2)"

text \<open>
  An example fetcher for the forecast tool: \<open>two_step_http grid forecast\<close> answers the
  grid lookup of the example coordinates with the body \<open>grid\<close>, the forecast URL
  \<^verbatim>\<open>https://api.weather.gov/gridpoints/PHI/1,2/forecast\<close> with \<open>forecast\<close> (\<open>None\<close>: that fetch
  fails), and fails at every other URL.
\<close>

definition example_forecast_url :: string where
  "example_forecast_url = ''https://api.weather.gov/gridpoints/PHI/1,2/forecast''"

definition grid_with_url :: json where
  "grid_with_url = JObj [(''properties'', JObj [(''forecast'', JStr example_forecast_url)])]"

definition two_step_http :: "json \<Rightarrow> json option \<Rightarrow> http_get" where
  "two_step_http grid forecast url hdrs =
     (if url = JStr ''https://api.weather.gov/points/40.5000,-75.2500'' then Some grid
      else if url = JStr example_forecast_url then forecast
      else None)"

definition grid_without_url :: json where
  "grid_without_url = JObj [(''properties'', JObj [(''gridId'', JStr ''PHI'')])]"


definition tonight :: "(string \<times> json) list" where
  "tonight =
     [(''name'', JStr ''Tonight''), (''temperature'', JInt 40), (''temperatureUnit'', JStr ''F''),
      (''windSpeed'', JStr ''5 mph''), (''windDirection'', JStr ''N''),
      (''shortForecast'', JStr ''Clear'')]"

definition monday :: "(string \<times> json) list" where
  "monday =
     [(''name'', JStr ''Monday''), (''temperature'', JInt 55), (''temperatureUnit'', JStr ''F''),
      (''windSpeed'', JStr ''10 mph''), (''windDirection'', JStr ''NW''),
      (''shortForecast'', JStr ''Sunny'')]"

definition two_periods :: json where
  "two_periods = JObj [(''properties'', JObj [(''periods'', JList [JObj tonight, JObj monday])])]"

definition grid_empty_url :: json where
  "grid_empty_url = JObj [(''properties'', JObj [(''forecast'', JStr [])])]"

subsection \<open>Payloads on which the tools return\<close>

text \<open>
  \<open>returns_string r\<close>: the call returned a string, it did not raise.
\<close>

definition returns_string :: "py_error + string \<Rightarrow> bool" where
  "returns_string r = (case r of Inl e \<Rightarrow> False | Inr s \<Rightarrow> True)"

fun is_object :: "json \<Rightarrow> bool" where
  "is_object (JObj kvs) = True"
| "is_object _ = False"

text \<open>
  The grid-point and forecast payloads carry their data in a \<^verbatim>\<open>properties\<close> entry, as an
  alert record does: the payload is an object whose \<^verbatim>\<open>properties\<close> entry is absent or an
  object.
\<close>

definition properties_of :: "json \<Rightarrow> (string \<times> json) list option" where
  "properties_of payload = alert_fields payload"

text \<open>
  The \<^verbatim>\<open>features\<close> entry of an alerts payload is empty (any falsy value) or a list of alert
  records; the \<^verbatim>\<open>periods\<close> entry of a forecast payload is empty or a list of objects.
\<close>

definition features_ok :: "json \<Rightarrow> bool" where
  "features_ok v =
     (if truthy v
      then (case v of JList xs \<Rightarrow> list_all (\<lambda>x. alert_fields x \<noteq> None) xs | _ \<Rightarrow> False)
      else True)"

definition periods_ok :: "json \<Rightarrow> bool" where
  "periods_ok v =
     (if truthy v then (case v of JList xs \<Rightarrow> list_all is_object xs | _ \<Rightarrow> False) else True)"

text \<open>
  What \<^verbatim>\<open>make_nws_request\<close> may give the alerts tool: an empty value (\<^verbatim>\<open>None\<close> after a failed
  fetch is one), or an object whose \<^verbatim>\<open>features\<close> entry is absent or as above.
\<close>

definition alerts_payload_ok :: "json \<Rightarrow> bool" where
  "alerts_payload_ok body =
     (if truthy body
      then (case body of
              JObj kvs \<Rightarrow> (case map_of kvs ''features'' of None \<Rightarrow> True | Some v \<Rightarrow> features_ok v)
            | _ \<Rightarrow> False)
      else True)"

definition forecast_payload_ok :: "json \<Rightarrow> bool" where
  "forecast_payload_ok body =
     (if truthy body
      then (case properties_of body of
              None \<Rightarrow> False
            | Some props \<Rightarrow> (case map_of props ''periods'' of None \<Rightarrow> True | Some v \<Rightarrow> periods_ok v))
      else True)"

text \<open>
  The grid-point payload, and with it the payload that the second fetch gives at the forecast
  URL, when that URL is present and not empty.
\<close>

definition grid_payload_ok :: "http_get \<Rightarrow> json \<Rightarrow> bool" where
  "grid_payload_ok http body =
     (if truthy body
      then (case properties_of body of
              None \<Rightarrow> False
            | Some props \<Rightarrow>
                (case map_of props ''forecast'' of
                   None \<Rightarrow> True
                 | Some u \<Rightarrow> if truthy u then forecast_payload_ok (make_nws_request http u) else True))
      else True)"

text \<open>
  Example payloads: alert records and periods with fields absent, and payloads whose
  \<^verbatim>\<open>properties\<close> entry is \<^verbatim>\<open>null\<close>.
\<close>

definition sparse_alerts :: json where
  "sparse_alerts =
     JObj [(''features'',
            JList [JObj [], JObj [(''properties'', JObj [(''event'', JStr ''Flood Warning'')])]])]"

definition sparse_alerts_http :: http_get where
  "sparse_alerts_http url hdrs =
     (if url = JStr ''https://api.weather.gov/alerts?area=CA'' then Some sparse_alerts else None)"

definition sparse_forecast :: json where
  "sparse_forecast =
     JObj [(''properties'', JObj [(''periods'', JList [JObj [], JObj [(''name'', JStr ''Tonight'')]])])]"

definition null_properties_alerts :: json where
  "null_properties_alerts = JObj [(''features'', JList [JObj [(''properties'', JNull)]])]"

definition null_properties_http :: http_get where
  "null_properties_http url hdrs =
     (if url = JStr ''https://api.weather.gov/alerts?area=CA'' then Some null_properties_alerts
      else None)"

definition grid_null_properties :: json where
  "grid_null_properties = JObj [(''properties'', JNull)]"

definition forecast_null_period :: json where
  "forecast_null_period = JObj [(''properties'', JObj [(''periods'', JList [JNull])])]"

definition null_properties_feature :: json where
  "null_properties_feature = JObj [(''properties'', JNull)]"

subsection \<open>Text with four decimal places\<close>

text \<open>
  What it is for a text to show a number with exactly four decimal places: an optional
  minus sign, at least one digit, a point, and exactly four digits. \<open>ten_thousandths s\<close> is
  the number that the digits of such a text write, counted in units of \<open>10\<^sup>-\<^sup>4\<close>, and
  \<open>nearest_ten_thousandth m e k\<close> says that \<open>k\<close> such units are a nearest multiple of
  \<open>10\<^sup>-\<^sup>4\<close> to \<open>m \<sqdot> 2\<^sup>e\<close>, at most half a unit away. These are written from the
  meaning of the words, not from \<open>format_4f\<close>.
\<close>

definition is_digit :: "char \<Rightarrow> bool" where
  "is_digit c = (c \<in> set ''0123456789'')"

definition four_decimals :: "string \<Rightarrow> bool" where
  "four_decimals s =
     (let t = (if take 1 s = ''-'' then drop 1 s else s);
          whole = takeWhile is_digit t;
          rest = dropWhile is_digit t
      in whole \<noteq> [] \<and> take 1 rest = ''.'' \<and> length (drop 1 rest) = 4
         \<and> list_all is_digit (drop 1 rest))"

definition digit_value :: "char \<Rightarrow> nat" where
  "digit_value c =
     (case map_of (zip ''0123456789'' [0, 1, 2, 3, 4, 5, 6, 7, 8, 9]) c of
        None \<Rightarrow> 0 | Some d \<Rightarrow> d)"

definition ten_thousandths :: "string \<Rightarrow> nat" where
  "ten_thousandths s = foldl (\<lambda>a c. 10 * a + digit_value c) 0 (filter is_digit s)"

definition nearest_ten_thousandth :: "nat \<Rightarrow> int \<Rightarrow> nat \<Rightarrow> bool" where
  "nearest_ten_thousandth m e k =
     (if 0 \<le> e then k = m * 2 ^ nat e * 10000
      else 2 * abs (int k * 2 ^ nat (- e) - int m * 10000) \<le> 2 ^ nat (- e))"

text \<open>
  The coordinates 12.3 and -104.9903 as binary64 numbers, and a fetcher that answers at one
  URL only.
\<close>

definition lat_12_3 :: pyfloat where
  "lat_12_3 = Finite False 3462142213541069 (- 48)"

definition lon_104_9903_west :: pyfloat where
  "lon_104_9903_west = Finite True 7388035561836197 (- 46)"

definition only_http :: "string \<Rightarrow> json \<Rightarrow> http_get" where
  "only_http u body url hdrs = (if url = JStr u then Some body else None)"

section \<open>Properties\<close>

lemma and_then_simps [simp]:
  "and_then (Inr x) f = f x"
  "and_then (Inl e) f = Inl e"
  by (simp_all add: and_then_def)

text \<open>
  The equation of \<open>decimal\<close> is used on numerals only, where the test \<open>n < 10\<close> evaluates.
\<close>

declare decimal.simps [simp del]

lemma decimal_numerals [simp]:
  "decimal 0 = ''0''"
  "decimal (Suc 0) = ''1''"
  "decimal (numeral k) =
     (if (numeral k :: nat) < 10 then [digit_char (numeral k)]
      else decimal (numeral k div 10) @ [digit_char (numeral k mod 10)])"
  by (simp_all add: decimal.simps [of 0] decimal.simps [of "Suc 0"] decimal.simps [of "numeral k"]
      digit_char_def)

subsection \<open>The alert formatter\<close>

lemma format_alert_JObj:
  "format_alert py (JObj kvs) =
     and_then (case map_of kvs ''properties'' of None \<Rightarrow> Inr (JObj []) | Some p \<Rightarrow> Inr p)
       (\<lambda>props. format_alert py (JObj [(''properties'', props)]))"
  by (simp add: format_alert_def split: option.splits)

lemma format_alert_props:
  "format_alert py (JObj [(''properties'', JObj flds)]) =
     Inr (''Event: '' @ field_text py flds ''event'' ''Unknown'' @ nl
       @ ''Area: '' @ field_text py flds ''areaDesc'' ''Unknown'' @ nl
       @ ''Severity: '' @ field_text py flds ''severity'' ''Unknown'' @ nl
       @ ''Status: '' @ field_text py flds ''status'' ''Unknown'' @ nl
       @ ''Headline: '' @ field_text py flds ''headline'' ''No headline'' @ nl
       @ ''---'')"
  by (simp add: format_alert_def field_text_def py_str_def split: option.splits)

lemma format_alert_record:
  assumes "alert_fields feature = Some flds"
  shows "format_alert py feature =
     Inr (''Event: '' @ field_text py flds ''event'' ''Unknown'' @ nl
       @ ''Area: '' @ field_text py flds ''areaDesc'' ''Unknown'' @ nl
       @ ''Severity: '' @ field_text py flds ''severity'' ''Unknown'' @ nl
       @ ''Status: '' @ field_text py flds ''status'' ''Unknown'' @ nl
       @ ''Headline: '' @ field_text py flds ''headline'' ''No headline'' @ nl
       @ ''---'')"
proof (cases feature)
  case (JObj kvs)
  show ?thesis
  proof (cases "map_of kvs ''properties''")
    case None
    with JObj assms have "flds = []" by simp
    with JObj None show ?thesis
      by (simp only: format_alert_JObj [of py kvs] option.case and_then_simps format_alert_props)
  next
    case (Some p)
    with JObj assms have "p = JObj flds" by (cases p) simp_all
    with JObj Some show ?thesis
      by (simp only: format_alert_JObj [of py kvs] option.case and_then_simps format_alert_props)
  qed
qed (use assms in simp_all)

text \<open>
  C5, for the records it holds for. \<^verbatim>\<open>format_alert\<close> is a function of its argument
  alone, and on every alert record whose \<^verbatim>\<open>properties\<close> entry is absent or an object it
  returns (never raises) the block of five labelled lines \<^verbatim>\<open>Event:\<close>, \<^verbatim>\<open>Area:\<close>,
  \<^verbatim>\<open>Severity:\<close>, \<^verbatim>\<open>Status:\<close>, \<^verbatim>\<open>Headline:\<close> and the line \<^verbatim>\<open>---\<close>, joined by newlines,
  with \<^verbatim>\<open>Unknown\<close> for an absent event, areaDesc, severity or status and
  \<^verbatim>\<open>No headline\<close> for an absent headline.
\<close>

theorem format_alert_block:
  assumes "alert_fields feature = Some flds"
  shows "format_alert py feature =
     Inr (''Event: '' @ (case map_of flds ''event'' of None \<Rightarrow> ''Unknown'' | Some v \<Rightarrow> py_str py v)
       @ ''\<newline>Area: '' @ (case map_of flds ''areaDesc'' of None \<Rightarrow> ''Unknown'' | Some v \<Rightarrow> py_str py v)
       @ ''\<newline>Severity: '' @ (case map_of flds ''severity'' of None \<Rightarrow> ''Unknown'' | Some v \<Rightarrow> py_str py v)
       @ ''\<newline>Status: '' @ (case map_of flds ''status'' of None \<Rightarrow> ''Unknown'' | Some v \<Rightarrow> py_str py v)
       @ ''\<newline>Headline: '' @ (case map_of flds ''headline'' of None \<Rightarrow> ''No headline'' | Some v \<Rightarrow> py_str py v)
       @ ''\<newline>---'')"
  using format_alert_record [OF assms, of py] by (simp add: field_text_def nl_def)

theorem format_alert_block_witness:
  "alert_fields flood_feature = Some [(''event'', JStr ''Flood Warning''), (''severity'', JStr ''Severe'')]
   \<and> format_alert plain flood_feature =
       Inr ''Event: Flood Warning\<newline>Area: Unknown\<newline>Severity: Severe\<newline>Status: Unknown\<newline>Headline: No headline\<newline>---''"
proof -
  have h: "alert_fields flood_feature =
      Some [(''event'', JStr ''Flood Warning''), (''severity'', JStr ''Severe'')]"
    by (simp add: flood_feature_def)
  show ?thesis
    using h format_alert_block [OF h, of plain] by (simp add: py_str_def)
qed

text \<open>
  The claim as stated, for every record and with no failure mode, fails on a record whose
  \<^verbatim>\<open>properties\<close> entry is \<^verbatim>\<open>null\<close>: \<^verbatim>\<open>feature.get("properties", {})\<close> is then \<^verbatim>\<open>None\<close>,
  and \<^verbatim>\<open>props.get\<close> on line 36 raises \<^verbatim>\<open>AttributeError\<close>.
\<close>

theorem format_alert_null_properties_counterexample:
  "null_properties_feature = JObj [(''properties'', JNull)]
   \<and> format_alert plain null_properties_feature = Inl AttributeError"
  by (simp add: null_properties_feature_def format_alert_def)

subsection \<open>Resource adapters\<close>

text \<open>
  C7. Each resource adapter returns exactly what the corresponding tool returns on the same
  input: \<^verbatim>\<open>alerts_resource(state)\<close> is \<^verbatim>\<open>get_alerts(state)\<close> and
  \<^verbatim>\<open>forecast_resource(latitude, longitude)\<close> is \<^verbatim>\<open>get_forecast(latitude, longitude)\<close>,
  raised exceptions included.
\<close>

theorem resources_delegate:
  "alerts_resource py http state = get_alerts py http state
   \<and> forecast_resource py http latitude longitude = get_forecast py http latitude longitude"
  by (simp add: alerts_resource_def forecast_resource_def)

subsection \<open>The fetch\<close>

lemma make_nws_request_None:
  "http url request_headers = None \<Longrightarrow> make_nws_request http url = JNull"
  by (simp add: make_nws_request_def)

lemma make_nws_request_Some:
  "http url request_headers = Some body \<Longrightarrow> make_nws_request http url = body"
  by (simp add: make_nws_request_def)

lemma map_err_all:
  "list_all2 (\<lambda>x y. f x = Inr y) xs ys \<Longrightarrow> map_err f xs = Inr ys"
  by (induction xs ys rule: list_all2_induct) simp_all

subsection \<open>The alerts tool, case by case\<close>

lemma get_alerts_falsy:
  "\<not> truthy (make_nws_request http (JStr (alerts_url py state)))
   \<Longrightarrow> get_alerts py http state = Inr ''Failed to retrieve alerts data''"
  by (simp add: get_alerts_def Let_def)

lemma get_alerts_no_features:
  assumes "make_nws_request http (JStr (alerts_url py state)) = JObj kvs" and "kvs \<noteq> []"
    and "case map_of kvs ''features'' of None \<Rightarrow> True | Some v \<Rightarrow> \<not> truthy v"
  shows "get_alerts py http state = Inr (''No active alerts for '' @ str_upper py state)"
  using assms by (simp add: get_alerts_def Let_def split: option.splits)

lemma get_alerts_features:
  assumes "make_nws_request http (JStr (alerts_url py state)) = JObj kvs"
    and "map_of kvs ''features'' = Some (JList fs)" and "fs \<noteq> []"
    and "map_err (format_alert py) fs = Inr blocks"
  shows "get_alerts py http state =
     Inr (''Active alerts for '' @ str_upper py state @ '':'' @ nl @ nl @ str_join nl blocks)"
proof -
  from assms(2) have "kvs \<noteq> []" by auto
  with assms show ?thesis by (simp add: get_alerts_def Let_def)
qed





subsection \<open>The three results of the alerts tool\<close>

text \<open>
  C1, as the code has it. \<^verbatim>\<open>get_alerts\<close> returns \<^verbatim>\<open>Failed to retrieve alerts data\<close> when the
  fetch fails and also when it succeeds with an empty (falsy) body; \<^verbatim>\<open>No active alerts for CODE\<close>,
  with the uppercased code, when the body is a non-empty object whose \<^verbatim>\<open>features\<close> entry is
  absent or empty; and, when \<^verbatim>\<open>features\<close> is a list of \<open>N \<ge> 1\<close> records that
  \<^verbatim>\<open>format_alert\<close> formats, the header naming the uppercased code, an empty line and the
  \<open>N\<close> blocks in the order of the list, joined by newlines.
\<close>

theorem get_alerts_three_results:
  "(http (JStr (alerts_url py state)) request_headers = None
      \<longrightarrow> get_alerts py http state = Inr ''Failed to retrieve alerts data'')
   \<and> (http (JStr (alerts_url py state)) request_headers = Some body \<and> \<not> truthy body
      \<longrightarrow> get_alerts py http state = Inr ''Failed to retrieve alerts data'')
   \<and> (http (JStr (alerts_url py state)) request_headers = Some (JObj kvs) \<and> kvs \<noteq> []
        \<and> (map_of kvs ''features'' = None
             \<or> (\<exists>v. map_of kvs ''features'' = Some v \<and> \<not> truthy v))
      \<longrightarrow> get_alerts py http state = Inr (''No active alerts for '' @ str_upper py state))
   \<and> (http (JStr (alerts_url py state)) request_headers = Some (JObj kvs)
        \<and> map_of kvs ''features'' = Some (JList fs) \<and> fs \<noteq> []
        \<and> list_all2 (\<lambda>feature block. format_alert py feature = Inr block) fs blocks
      \<longrightarrow> length blocks = length fs
        \<and> get_alerts py http state =
            Inr (''Active alerts for '' @ str_upper py state @ '':\<newline>\<newline>''
                   @ str_join ''\<newline>'' blocks))"
proof (intro conjI impI)
  assume "http (JStr (alerts_url py state)) request_headers = None"
  then show "get_alerts py http state = Inr ''Failed to retrieve alerts data''"
    by (intro get_alerts_falsy) (simp add: make_nws_request_None)
next
  assume "http (JStr (alerts_url py state)) request_headers = Some body \<and> \<not> truthy body"
  then show "get_alerts py http state = Inr ''Failed to retrieve alerts data''"
    by (intro get_alerts_falsy) (simp add: make_nws_request_Some)
next
  assume a: "http (JStr (alerts_url py state)) request_headers = Some (JObj kvs) \<and> kvs \<noteq> []
        \<and> (map_of kvs ''features'' = None
             \<or> (\<exists>v. map_of kvs ''features'' = Some v \<and> \<not> truthy v))"
  then have "make_nws_request http (JStr (alerts_url py state)) = JObj kvs"
    by (simp add: make_nws_request_Some)
  moreover from a have "case map_of kvs ''features'' of None \<Rightarrow> True | Some v \<Rightarrow> \<not> truthy v"
    by auto
  ultimately show "get_alerts py http state = Inr (''No active alerts for '' @ str_upper py state)"
    using a by (intro get_alerts_no_features [of http py state kvs]) simp_all
next
  assume a: "http (JStr (alerts_url py state)) request_headers = Some (JObj kvs)
        \<and> map_of kvs ''features'' = Some (JList fs) \<and> fs \<noteq> []
        \<and> list_all2 (\<lambda>feature block. format_alert py feature = Inr block) fs blocks"
  then show "length blocks = length fs"
    by (auto dest: list_all2_lengthD)
next
  assume a: "http (JStr (alerts_url py state)) request_headers = Some (JObj kvs)
        \<and> map_of kvs ''features'' = Some (JList fs) \<and> fs \<noteq> []
        \<and> list_all2 (\<lambda>feature block. format_alert py feature = Inr block) fs blocks"
  from a have "make_nws_request http (JStr (alerts_url py state)) = JObj kvs"
    by (simp add: make_nws_request_Some)
  moreover from a have "map_err (format_alert py) fs = Inr blocks"
    by (simp add: map_err_all)
  ultimately show "get_alerts py http state =
            Inr (''Active alerts for '' @ str_upper py state @ '':\<newline>\<newline>''
                   @ str_join ''\<newline>'' blocks)"
    using a get_alerts_features [of http py state kvs fs blocks] by (simp add: nl_def)
qed

theorem get_alerts_three_results_witness:
  "get_alerts plain failing_http ''ca'' = Inr ''Failed to retrieve alerts data''
   \<and> get_alerts plain empty_body_http ''ca'' = Inr ''Failed to retrieve alerts data''
   \<and> get_alerts plain no_alerts_http ''ca'' = Inr ''No active alerts for CA''
   \<and> get_alerts plain flood_http ''ca'' =
       Inr ''Active alerts for CA:\<newline>\<newline>Event: Flood Warning\<newline>Area: Unknown\<newline>Severity: Severe\<newline>Status: Unknown\<newline>Headline: No headline\<newline>---''"
proof -
  have u: "str_upper plain ''ca'' = ''CA''"
    by (simp add: plain_def upper_ascii_def)
  have url: "alerts_url plain ''ca'' = ''https://api.weather.gov/alerts?area=CA''"
    by (simp add: alerts_url_def NWS_API_BASE_def u)
  have b: "format_alert plain flood_feature =
       Inr ''Event: Flood Warning\<newline>Area: Unknown\<newline>Severity: Severe\<newline>Status: Unknown\<newline>Headline: No headline\<newline>---''"
    by (simp add: format_alert_def flood_feature_def py_str_def nl_def)
  have 1: "get_alerts plain failing_http ''ca'' = Inr ''Failed to retrieve alerts data''"
    using get_alerts_three_results [of failing_http plain "''ca''"]
    by (simp add: failing_http_def)
  have 2: "get_alerts plain empty_body_http ''ca'' = Inr ''Failed to retrieve alerts data''"
    using get_alerts_three_results [of empty_body_http plain "''ca''" "JObj []"]
    by (simp add: empty_body_http_def)
  have 3: "get_alerts plain no_alerts_http ''ca'' = Inr ''No active alerts for CA''"
    using get_alerts_three_results [of no_alerts_http plain "''ca''" _
        "[(''type'', JStr ''FeatureCollection''), (''features'', JList [])]"]
    by (simp add: no_alerts_http_def u)
  have 4: "get_alerts plain flood_http ''ca'' =
       Inr ''Active alerts for CA:\<newline>\<newline>Event: Flood Warning\<newline>Area: Unknown\<newline>Severity: Severe\<newline>Status: Unknown\<newline>Headline: No headline\<newline>---''"
    using get_alerts_three_results [of flood_http plain "''ca''" _
        "[(''features'', JList [flood_feature])]" "[flood_feature]"
        "[''Event: Flood Warning\<newline>Area: Unknown\<newline>Severity: Severe\<newline>Status: Unknown\<newline>Headline: No headline\<newline>---'']"]
    by (simp add: flood_http_def url u b)
  from 1 2 3 4 show ?thesis by simp
qed

text \<open>
  The claim as stated fails on a fetch that succeeds with the empty object: the body has no
  features, yet the result is the failure message, not \<^verbatim>\<open>No active alerts for CA\<close>.
\<close>

theorem get_alerts_empty_body_counterexample:
  "empty_body_http (JStr (alerts_url plain ''ca'')) request_headers = Some (JObj [])
   \<and> dict_get (JObj []) ''features'' (JList []) = Inr (JList [])
   \<and> get_alerts plain empty_body_http ''ca'' = Inr ''Failed to retrieve alerts data''
   \<and> get_alerts plain empty_body_http ''ca'' \<noteq> Inr ''No active alerts for CA''"
  by (simp add: empty_body_http_def get_alerts_def make_nws_request_def)

subsection \<open>The forecast period formatter\<close>

lemma period_text_JObj:
  "period_text py (JObj flds) =
     Inr (field_text py flds ''name'' ''Unknown'' @ '':'' @ nl
       @ ''Temperature: '' @ field_text py flds ''temperature'' ''Unknown'' @ degree
       @ field_text py flds ''temperatureUnit'' ''F'' @ nl
       @ ''Wind: '' @ field_text py flds ''windSpeed'' ''Unknown'' @ '' ''
       @ field_text py flds ''windDirection'' [] @ nl
       @ field_text py flds ''shortForecast'' ''No forecast available'' @ nl
       @ ''---'')"
  by (simp add: period_text_def field_text_def py_str_def split: option.splits)

lemma period_text_not_object:
  "(\<forall>flds. period \<noteq> JObj flds) \<Longrightarrow> period_text py period = Inl AttributeError"
  by (cases period) (simp_all add: period_text_def)

text \<open>
  C10. In the block of a forecast period the placeholders differ by field: an absent name,
  temperature or windSpeed is shown as \<^verbatim>\<open>Unknown\<close>, an absent temperatureUnit as \<^verbatim>\<open>F\<close>, an
  absent windDirection as the empty string (the Wind line then ends with a space), and an
  absent shortForecast as \<^verbatim>\<open>No forecast available\<close>. So a period with only a temperature
  \<open>t\<close> renders as \<^verbatim>\<open>Unknown:\<close>, \<^verbatim>\<open>Temperature: t\<close> with the degree sign and \<^verbatim>\<open>F\<close>,
  \<^verbatim>\<open>Wind: Unknown \<close>, \<^verbatim>\<open>No forecast available\<close>, \<^verbatim>\<open>---\<close>.
\<close>

theorem period_text_placeholders:
  "period_text py (JObj flds) =
     Inr ((case map_of flds ''name'' of None \<Rightarrow> ''Unknown'' | Some v \<Rightarrow> py_str py v)
       @ '':\<newline>Temperature: ''
       @ (case map_of flds ''temperature'' of None \<Rightarrow> ''Unknown'' | Some v \<Rightarrow> py_str py v)
       @ [CHR 0xC2, CHR 0xB0]
       @ (case map_of flds ''temperatureUnit'' of None \<Rightarrow> ''F'' | Some v \<Rightarrow> py_str py v)
       @ ''\<newline>Wind: ''
       @ (case map_of flds ''windSpeed'' of None \<Rightarrow> ''Unknown'' | Some v \<Rightarrow> py_str py v)
       @ '' ''
       @ (case map_of flds ''windDirection'' of None \<Rightarrow> [] | Some v \<Rightarrow> py_str py v)
       @ ''\<newline>''
       @ (case map_of flds ''shortForecast'' of None \<Rightarrow> ''No forecast available''
          | Some v \<Rightarrow> py_str py v)
       @ ''\<newline>---'')
   \<and> period_text py (JObj [(''temperature'', t)]) =
       Inr (''Unknown:\<newline>Temperature: '' @ py_str py t @ [CHR 0xC2, CHR 0xB0]
            @ ''F\<newline>Wind: Unknown \<newline>No forecast available\<newline>---'')
   \<and> period_text py (JObj [(''temperature'', JInt 40)]) =
       Inr (''Unknown:\<newline>Temperature: 40'' @ [CHR 0xC2, CHR 0xB0]
            @ ''F\<newline>Wind: Unknown \<newline>No forecast available\<newline>---'')"
  by (simp add: period_text_JObj field_text_def nl_def degree_def py_str_def str_int_def
      digit_char_def)

subsection \<open>The forecast tool, step by step\<close>

lemma forecast_url_of_truthy:
  assumes "forecast_url_of d = Inr u" and "truthy u"
  shows "truthy d"
proof (cases d)
  case (JObj kvs)
  with assms show ?thesis
    by (cases kvs) (auto simp: forecast_url_of_def)
qed (use assms in \<open>simp_all add: forecast_url_of_def\<close>)

lemma periods_of_truthy:
  assumes "periods_of d = Inr ps" and "truthy ps"
  shows "truthy d"
proof (cases d)
  case (JObj kvs)
  with assms show ?thesis
    by (cases kvs) (auto simp: periods_of_def)
qed (use assms in \<open>simp_all add: periods_of_def\<close>)

lemma get_forecast_grid_falsy:
  "\<not> truthy (make_nws_request http (JStr (points_url latitude longitude)))
   \<Longrightarrow> get_forecast py http latitude longitude = Inr (grid_failure py latitude longitude)"
  by (simp add: get_forecast_def Let_def)

lemma get_forecast_no_url:
  assumes "truthy (make_nws_request http (JStr (points_url latitude longitude)))"
    and "forecast_url_of (make_nws_request http (JStr (points_url latitude longitude))) = Inr u"
    and "\<not> truthy u"
  shows "get_forecast py http latitude longitude =
     Inr ''Failed to get forecast URL from grid point data''"
  using assms by (simp add: get_forecast_def Let_def)

lemma get_forecast_second_falsy:
  assumes "forecast_url_of (make_nws_request http (JStr (points_url latitude longitude))) = Inr u"
    and "truthy u" and "\<not> truthy (make_nws_request http u)"
  shows "get_forecast py http latitude longitude = Inr ''Failed to retrieve forecast data''"
  using assms forecast_url_of_truthy [OF assms(1,2)] by (simp add: get_forecast_def Let_def)


lemma get_forecast_periods:
  assumes "forecast_url_of (make_nws_request http (JStr (points_url latitude longitude))) = Inr u"
    and "truthy u"
    and "periods_of (make_nws_request http u) = Inr (JList ps)" and "ps \<noteq> []"
    and "map_err (period_text py) ps = Inr blocks"
  shows "get_forecast py http latitude longitude =
     Inr (''Forecast for '' @ float_repr py latitude @ '', '' @ float_repr py longitude
            @ '':'' @ nl @ nl @ str_join nl blocks)"
proof -
  have "truthy (make_nws_request http u)"
    using periods_of_truthy [OF assms(3)] assms(4) by simp
  with assms forecast_url_of_truthy [OF assms(1,2)] show ?thesis
    by (simp add: get_forecast_def Let_def)
qed

lemma example_points_url:
  "points_url example_lat example_lon = ''https://api.weather.gov/points/40.5000,-75.2500''"
  by (simp add: points_url_def NWS_API_BASE_def example_lat_def example_lon_def scaled4_def
      four_digits_def digit_char_def Let_def)

lemma example_reprs:
  "float_repr plain example_lat = ''40.5''" "float_repr plain example_lon = ''-75.25''"
  by (simp_all add: plain_def exact_repr_def example_lat_def example_lon_def digit_char_def
      Let_def)

lemma two_step_http_simps:
  "two_step_http grid forecast (JStr (points_url example_lat example_lon)) hdrs = Some grid"
  "two_step_http grid forecast (JStr example_forecast_url) hdrs = forecast"
  by (simp_all add: two_step_http_def example_points_url example_forecast_url_def)

subsection \<open>The failure messages of the forecast tool\<close>




subsection \<open>The forecast report\<close>

lemma map_err_period_text:
  "map_err (period_text py) (map JObj periods) =
     Inr (map (\<lambda>flds. projr (period_text py (JObj flds))) periods)"
  by (induction periods) (simp_all add: period_text_JObj)

text \<open>
  C3, for the periods it holds for. When both fetches succeed and the periods are a
  non-empty list of period records (objects),
  \<^verbatim>\<open>get_forecast\<close> returns the header naming the input coordinates, an empty line, and one
  block per period in the order of the list, joined by newlines. A block is the name with a
  colon, the line \<^verbatim>\<open>Temperature: \<close>value, degree sign, unit, the line \<^verbatim>\<open>Wind: \<close>speed, space,
  direction, the short forecast, and the line \<^verbatim>\<open>---\<close>.
\<close>

theorem get_forecast_report:
  assumes "http (JStr (points_url latitude longitude)) request_headers = Some grid"
    and "forecast_url_of grid = Inr u" and "truthy u"
    and "http u request_headers = Some forecast"
    and "periods_of forecast = Inr (JList (map JObj periods))" and "periods \<noteq> []"
  shows "get_forecast py http latitude longitude =
     Inr (''Forecast for '' @ float_repr py latitude @ '', '' @ float_repr py longitude
       @ '':\<newline>\<newline>''
       @ str_join ''\<newline>''
           (map (\<lambda>flds.
                field_text py flds ''name'' ''Unknown'' @ '':\<newline>Temperature: ''
                @ field_text py flds ''temperature'' ''Unknown'' @ [CHR 0xC2, CHR 0xB0]
                @ field_text py flds ''temperatureUnit'' ''F'' @ ''\<newline>Wind: ''
                @ field_text py flds ''windSpeed'' ''Unknown'' @ '' ''
                @ field_text py flds ''windDirection'' [] @ ''\<newline>''
                @ field_text py flds ''shortForecast'' ''No forecast available''
                @ ''\<newline>---'')
              periods))"
proof -
  have g: "make_nws_request http (JStr (points_url latitude longitude)) = grid"
    and f: "make_nws_request http u = forecast"
    using assms by (simp_all add: make_nws_request_Some)
  have "get_forecast py http latitude longitude =
     Inr (''Forecast for '' @ float_repr py latitude @ '', '' @ float_repr py longitude
            @ '':'' @ nl @ nl
            @ str_join nl (map (\<lambda>flds. projr (period_text py (JObj flds))) periods))"
    using assms
    by (intro get_forecast_periods [where u = u and ps = "map JObj periods"])
      (simp_all add: g f map_err_period_text)
  then show ?thesis
    by (simp add: period_text_JObj nl_def degree_def)
qed

theorem get_forecast_report_witness:
  "get_forecast plain (two_step_http grid_with_url (Some two_periods)) example_lat example_lon =
     Inr (''Forecast for 40.5, -75.25:\<newline>\<newline>Tonight:\<newline>Temperature: 40''
          @ [CHR 0xC2, CHR 0xB0]
          @ ''F\<newline>Wind: 5 mph N\<newline>Clear\<newline>---\<newline>Monday:\<newline>Temperature: 55''
          @ [CHR 0xC2, CHR 0xB0]
          @ ''F\<newline>Wind: 10 mph NW\<newline>Sunny\<newline>---'')"
proof -
  have u: "forecast_url_of grid_with_url = Inr (JStr example_forecast_url)"
    "truthy (JStr example_forecast_url)"
    by (simp_all add: forecast_url_of_def grid_with_url_def example_forecast_url_def)
  have p: "periods_of two_periods = Inr (JList (map JObj [tonight, monday]))"
    by (simp add: periods_of_def two_periods_def)
  have ne: "[tonight, monday] \<noteq> []"
    by simp
  have g: "two_step_http grid_with_url (Some two_periods)
      (JStr (points_url example_lat example_lon)) request_headers = Some grid_with_url"
    by (rule two_step_http_simps)
  have f: "two_step_http grid_with_url (Some two_periods)
      (JStr example_forecast_url) request_headers = Some two_periods"
    by (rule two_step_http_simps)
  from get_forecast_report [where http = "two_step_http grid_with_url (Some two_periods)"
      and latitude = example_lat and longitude = example_lon and py = plain, OF g u f p ne]
  show ?thesis
    by (simp add: example_reprs field_text_def tonight_def monday_def py_str_def str_int_def
        digit_char_def)
qed

text \<open>
  The claim as stated, for every non-empty periods list, fails when an element of the list
  is not an object: with the periods \<^verbatim>\<open>[null]\<close> both fetches succeed, and \<^verbatim>\<open>period.get\<close>
  on line 95 raises \<^verbatim>\<open>AttributeError\<close>.
\<close>

theorem get_forecast_null_period_counterexample:
  "two_step_http grid_with_url (Some forecast_null_period)
       (JStr (points_url example_lat example_lon)) request_headers = Some grid_with_url
   \<and> forecast_url_of grid_with_url = Inr (JStr example_forecast_url)
   \<and> two_step_http grid_with_url (Some forecast_null_period) (JStr example_forecast_url)
       request_headers = Some (JObj [(''properties'', JObj [(''periods'', JList [JNull])])])
   \<and> periods_of forecast_null_period = Inr (JList [JNull])
   \<and> get_forecast plain (two_step_http grid_with_url (Some forecast_null_period)) example_lat
       example_lon = Inl AttributeError"
proof -
  let ?http = "two_step_http grid_with_url (Some forecast_null_period)"
  have g: "make_nws_request ?http (JStr (points_url example_lat example_lon)) = grid_with_url"
    and f: "make_nws_request ?http (JStr example_forecast_url) = forecast_null_period"
    by (simp_all add: make_nws_request_def two_step_http_simps)
  have u: "forecast_url_of grid_with_url = Inr (JStr example_forecast_url)"
    and ne: "example_forecast_url \<noteq> []" and t: "truthy grid_with_url"
    by (simp_all add: forecast_url_of_def grid_with_url_def example_forecast_url_def)
  have p: "periods_of forecast_null_period = Inr (JList [JNull])"
    and tf: "truthy forecast_null_period"
    by (simp_all add: periods_of_def forecast_null_period_def)
  have "get_forecast plain ?http example_lat example_lon = Inl AttributeError"
    by (simp add: get_forecast_def g f u ne t p tf period_text_def)
  with u p show ?thesis
    by (simp add: two_step_http_simps forecast_null_period_def)
qed

subsection \<open>Empty bodies count as failed fetches\<close>

text \<open>
  C9. The tools test the parsed body for emptiness, not the fetch for failure: when a fetch
  succeeds with an empty body (the empty object is one), \<^verbatim>\<open>get_alerts\<close> returns
  \<^verbatim>\<open>Failed to retrieve alerts data\<close> as it does when the fetch fails, and \<^verbatim>\<open>get_forecast\<close>
  returns the message of step 1, or of step 3 when the empty body is that of the second
  fetch; and a forecast URL that is the empty string gives the same message as an absent one.
\<close>

theorem empty_body_is_failure:
  "\<not> truthy (JObj [])
   \<and> (http (JStr (alerts_url py state)) request_headers = Some body \<and> \<not> truthy body
      \<longrightarrow> get_alerts py http state = Inr ''Failed to retrieve alerts data''
        \<and> get_alerts py http state = get_alerts py failing_http state)
   \<and> (http (JStr (points_url latitude longitude)) request_headers = Some body \<and> \<not> truthy body
      \<longrightarrow> get_forecast py http latitude longitude = Inr (grid_failure py latitude longitude)
        \<and> get_forecast py http latitude longitude = get_forecast py failing_http latitude longitude)
   \<and> (http (JStr (points_url latitude longitude)) request_headers = Some grid
        \<and> forecast_url_of grid = Inr u \<and> truthy u
        \<and> http u request_headers = Some body \<and> \<not> truthy body
      \<longrightarrow> get_forecast py http latitude longitude = Inr ''Failed to retrieve forecast data'')
   \<and> (http (JStr (points_url latitude longitude)) request_headers = Some grid \<and> truthy grid
        \<and> (forecast_url_of grid = Inr (JStr []) \<or> forecast_url_of grid = Inr JNull)
      \<longrightarrow> get_forecast py http latitude longitude =
          Inr ''Failed to get forecast URL from grid point data'')"
proof (intro conjI impI)
  show "\<not> truthy (JObj [])" by simp
next
  assume a: "http (JStr (alerts_url py state)) request_headers = Some body \<and> \<not> truthy body"
  then show "get_alerts py http state = Inr ''Failed to retrieve alerts data''"
    by (intro get_alerts_falsy) (simp add: make_nws_request_Some)
next
  assume a: "http (JStr (alerts_url py state)) request_headers = Some body \<and> \<not> truthy body"
  then have "get_alerts py http state = Inr ''Failed to retrieve alerts data''"
    by (intro get_alerts_falsy) (simp add: make_nws_request_Some)
  moreover have "get_alerts py failing_http state = Inr ''Failed to retrieve alerts data''"
    by (intro get_alerts_falsy) (simp add: make_nws_request_def failing_http_def)
  ultimately show "get_alerts py http state = get_alerts py failing_http state" by simp
next
  assume a: "http (JStr (points_url latitude longitude)) request_headers = Some body
      \<and> \<not> truthy body"
  then show "get_forecast py http latitude longitude = Inr (grid_failure py latitude longitude)"
    by (intro get_forecast_grid_falsy) (simp add: make_nws_request_Some)
next
  assume a: "http (JStr (points_url latitude longitude)) request_headers = Some body
      \<and> \<not> truthy body"
  then have "get_forecast py http latitude longitude = Inr (grid_failure py latitude longitude)"
    by (intro get_forecast_grid_falsy) (simp add: make_nws_request_Some)
  moreover have "get_forecast py failing_http latitude longitude
      = Inr (grid_failure py latitude longitude)"
    by (intro get_forecast_grid_falsy) (simp add: make_nws_request_def failing_http_def)
  ultimately show "get_forecast py http latitude longitude
      = get_forecast py failing_http latitude longitude" by simp
next
  assume a: "http (JStr (points_url latitude longitude)) request_headers = Some grid
        \<and> forecast_url_of grid = Inr u \<and> truthy u
        \<and> http u request_headers = Some body \<and> \<not> truthy body"
  then show "get_forecast py http latitude longitude = Inr ''Failed to retrieve forecast data''"
    by (intro get_forecast_second_falsy [where u = u]) (simp_all add: make_nws_request_Some)
next
  assume a: "http (JStr (points_url latitude longitude)) request_headers = Some grid
        \<and> truthy grid
        \<and> (forecast_url_of grid = Inr (JStr []) \<or> forecast_url_of grid = Inr JNull)"
  then have g: "make_nws_request http (JStr (points_url latitude longitude)) = grid"
    by (simp add: make_nws_request_Some)
  from a have "\<exists>u. forecast_url_of grid = Inr u \<and> \<not> truthy u"
    by auto
  then obtain u where "forecast_url_of grid = Inr u" and "\<not> truthy u"
    by blast
  with a show "get_forecast py http latitude longitude =
          Inr ''Failed to get forecast URL from grid point data''"
    by (intro get_forecast_no_url [where u = u]) (simp_all add: g)
qed

theorem empty_body_is_failure_witness:
  "get_alerts plain empty_body_http ''ca'' = Inr ''Failed to retrieve alerts data''
   \<and> get_alerts plain empty_body_http ''ca'' = get_alerts plain failing_http ''ca''
   \<and> get_forecast plain empty_body_http example_lat example_lon =
       Inr ''Failed to retrieve grid point data for coordinates: 40.5, -75.25. This location may not be supported by the NWS API (only US locations are supported).''
   \<and> get_forecast plain empty_body_http example_lat example_lon =
       get_forecast plain failing_http example_lat example_lon
   \<and> get_forecast plain (two_step_http grid_with_url (Some (JObj []))) example_lat example_lon =
       Inr ''Failed to retrieve forecast data''
   \<and> get_forecast plain (two_step_http grid_empty_url None) example_lat example_lon =
       Inr ''Failed to get forecast URL from grid point data''
   \<and> get_forecast plain (two_step_http grid_without_url None) example_lat example_lon =
       Inr ''Failed to get forecast URL from grid point data''"
proof -
  have u: "forecast_url_of grid_with_url = Inr (JStr example_forecast_url)"
    "example_forecast_url \<noteq> []"
    by (simp_all add: forecast_url_of_def grid_with_url_def example_forecast_url_def)
  have e: "forecast_url_of grid_empty_url = Inr (JStr [])" "truthy grid_empty_url"
    by (simp_all add: forecast_url_of_def grid_empty_url_def)
  have n: "forecast_url_of grid_without_url = Inr JNull" "truthy grid_without_url"
    by (simp_all add: forecast_url_of_def grid_without_url_def)
  have 1: "get_alerts plain empty_body_http ''ca'' = Inr ''Failed to retrieve alerts data''
      \<and> get_alerts plain empty_body_http ''ca'' = get_alerts plain failing_http ''ca''
      \<and> get_forecast plain empty_body_http example_lat example_lon =
          Inr (grid_failure plain example_lat example_lon)
      \<and> get_forecast plain empty_body_http example_lat example_lon =
          get_forecast plain failing_http example_lat example_lon"
    using empty_body_is_failure [where http = empty_body_http and py = plain and state = "''ca''"
        and body = "JObj []" and latitude = example_lat and longitude = example_lon
        and grid = JNull and u = JNull]
    by (auto simp: empty_body_http_def)
  have 2: "get_forecast plain (two_step_http grid_with_url (Some (JObj []))) example_lat
      example_lon = Inr ''Failed to retrieve forecast data''"
    using empty_body_is_failure [where http = "two_step_http grid_with_url (Some (JObj []))"
        and py = plain and latitude = example_lat and longitude = example_lon
        and grid = grid_with_url and u = "JStr example_forecast_url" and body = "JObj []" and state = "[]"]
    by (simp add: two_step_http_simps u)
  have 3: "get_forecast plain (two_step_http grid_empty_url None) example_lat example_lon =
       Inr ''Failed to get forecast URL from grid point data''"
    using empty_body_is_failure [where http = "two_step_http grid_empty_url None"
        and py = plain and latitude = example_lat and longitude = example_lon
        and grid = grid_empty_url and u = JNull and body = JNull and state = "[]"]
    by (simp add: two_step_http_simps e)
  have 4: "get_forecast plain (two_step_http grid_without_url None) example_lat example_lon =
       Inr ''Failed to get forecast URL from grid point data''"
    using empty_body_is_failure [where http = "two_step_http grid_without_url None"
        and py = plain and latitude = example_lat and longitude = example_lon
        and grid = grid_without_url and u = JNull and body = JNull and state = "[]"]
    by (simp add: two_step_http_simps n)
  have g: "grid_failure plain example_lat example_lon =
      ''Failed to retrieve grid point data for coordinates: 40.5, -75.25. This location may not be supported by the NWS API (only US locations are supported).''"
    by (simp add: grid_failure_def example_reprs)
  from 1 2 3 4 show ?thesis
    unfolding g by (intro conjI) (elim conjE, assumption)+
qed

subsection \<open>When the tools return and when they raise\<close>

lemma returns_string_simps [simp]:
  "returns_string (Inr s) = True"
  "returns_string (Inl e) = False"
  by (simp_all add: returns_string_def)

lemma map_err_returns:
  "(\<exists>ys. map_err f xs = Inr ys) = list_all (\<lambda>x. \<exists>y. f x = Inr y) xs"
  by (induction xs) (auto split: sum.splits)

lemma format_alert_returns:
  "(\<exists>s. format_alert py x = Inr s) = (alert_fields x \<noteq> None)"
proof
  assume "alert_fields x \<noteq> None"
  then obtain flds where "alert_fields x = Some flds" by blast
  from format_alert_record [OF this] show "\<exists>s. format_alert py x = Inr s" by blast
next
  assume a: "\<exists>s. format_alert py x = Inr s"
  show "alert_fields x \<noteq> None"
  proof (cases x)
    case (JObj kvs)
    show ?thesis
    proof (cases "map_of kvs ''properties''")
      case None
      with JObj show ?thesis by simp
    next
      case (Some p)
      with JObj a show ?thesis by (cases p) (auto simp: format_alert_def)
    qed
  qed (use a in \<open>auto simp: format_alert_def\<close>)
qed

lemma period_text_returns:
  "(\<exists>s. period_text py x = Inr s) = is_object x"
  by (cases x) (simp_all add: period_text_JObj period_text_not_object)

lemma returns_string_blocks:
  "returns_string (and_then (map_err f xs) (\<lambda>blocks. Inr (g blocks))) =
     list_all (\<lambda>x. \<exists>y. f x = Inr y) xs"
  using map_err_returns [of f xs] by (cases "map_err f xs") auto

lemma features_returns:
  assumes "truthy v"
  shows "returns_string (and_then (iterate v) (\<lambda>fs.
           and_then (map_err (format_alert py) fs) (\<lambda>blocks. Inr (g blocks)))) = features_ok v"
proof (cases v)
  case (JList xs)
  then show ?thesis
    using assms by (simp add: returns_string_blocks features_ok_def format_alert_returns)
next
  case (JObj kvs)
  with assms obtain k w rest where "kvs = (k, w) # rest" by (cases kvs) auto
  with JObj show ?thesis
    by (simp add: features_ok_def format_alert_def)
next
  case (JStr s)
  with assms obtain c rest where "s = c # rest" by (cases s) auto
  with JStr show ?thesis
    by (simp add: features_ok_def format_alert_def)
qed (use assms in \<open>simp_all add: features_ok_def\<close>)

lemma periods_returns:
  assumes "truthy v"
  shows "returns_string (and_then (iterate v) (\<lambda>ps.
           and_then (map_err (period_text py) ps) (\<lambda>blocks. Inr (g blocks)))) = periods_ok v"
proof (cases v)
  case (JList xs)
  then show ?thesis
    using assms by (simp add: returns_string_blocks periods_ok_def period_text_returns)
next
  case (JObj kvs)
  with assms obtain k w rest where "kvs = (k, w) # rest" by (cases kvs) auto
  with JObj show ?thesis
    by (simp add: periods_ok_def period_text_def)
next
  case (JStr s)
  with assms obtain c rest where "s = c # rest" by (cases s) auto
  with JStr show ?thesis
    by (simp add: periods_ok_def period_text_def)
qed (use assms in \<open>simp_all add: periods_ok_def\<close>)

lemma get_alerts_returns:
  "returns_string (get_alerts py http state) =
     alerts_payload_ok (make_nws_request http (JStr (alerts_url py state)))"
proof -
  let ?d = "make_nws_request http (JStr (alerts_url py state))"
  show ?thesis
  proof (cases "truthy ?d")
    case False
    then show ?thesis by (simp add: get_alerts_falsy alerts_payload_ok_def)
  next
    case d: True
    show ?thesis
    proof (cases ?d)
      case (JObj kvs)
      show ?thesis
      proof (cases "map_of kvs ''features''")
        case None
        with d JObj show ?thesis by (simp add: get_alerts_def Let_def alerts_payload_ok_def)
      next
        case (Some v)
        show ?thesis
        proof (cases "truthy v")
          case False
          with d JObj Some show ?thesis
            by (simp add: get_alerts_def Let_def alerts_payload_ok_def features_ok_def)
        next
          case True
          with d JObj Some features_returns [OF True, of py] show ?thesis
            by (simp add: get_alerts_def Let_def alerts_payload_ok_def)
        qed
      qed
    qed (use d in \<open>simp_all add: get_alerts_def Let_def alerts_payload_ok_def\<close>)
  qed
qed

lemma forecast_tail_returns:
  assumes "truthy d"
  shows "returns_string (and_then (periods_of d) (\<lambda>periods.
           if \<not> truthy periods then Inr m
           else and_then (iterate periods) (\<lambda>ps.
                and_then (map_err (period_text py) ps) (\<lambda>blocks. Inr (g blocks))))) =
         forecast_payload_ok d"
proof (cases d)
  case (JObj kvs)
  show ?thesis
  proof (cases "map_of kvs ''properties''")
    case None
    with assms JObj show ?thesis
      by (simp add: periods_of_def forecast_payload_ok_def properties_of_def)
  next
    case (Some p)
    show ?thesis
    proof (cases p)
      case p: (JObj props)
      show ?thesis
      proof (cases "map_of props ''periods''")
        case None
        with assms JObj Some p show ?thesis
          by (simp add: periods_of_def forecast_payload_ok_def properties_of_def)
      next
        case v: (Some v)
        show ?thesis
        proof (cases "truthy v")
          case False
          with assms JObj Some p v show ?thesis
            by (simp add: periods_of_def forecast_payload_ok_def properties_of_def periods_ok_def)
        next
          case True
          with assms JObj Some p v periods_returns [OF True, of py] show ?thesis
            by (simp add: periods_of_def forecast_payload_ok_def properties_of_def)
        qed
      qed
    qed (use assms JObj Some in \<open>simp_all add: periods_of_def forecast_payload_ok_def properties_of_def\<close>)
  qed
qed (use assms in \<open>simp_all add: periods_of_def forecast_payload_ok_def properties_of_def\<close>)

lemma get_forecast_returns:
  "returns_string (get_forecast py http latitude longitude) =
     grid_payload_ok http (make_nws_request http (JStr (points_url latitude longitude)))"
proof -
  let ?d = "make_nws_request http (JStr (points_url latitude longitude))"
  show ?thesis
  proof (cases "truthy ?d")
    case False
    then show ?thesis by (simp add: get_forecast_grid_falsy grid_payload_ok_def)
  next
    case d: True
    show ?thesis
    proof (cases ?d)
      case (JObj kvs)
      show ?thesis
      proof (cases "map_of kvs ''properties''")
        case None
        with d JObj show ?thesis
          by (simp add: get_forecast_def Let_def forecast_url_of_def grid_payload_ok_def
              properties_of_def)
      next
        case (Some p)
        show ?thesis
        proof (cases p)
          case p: (JObj props)
          show ?thesis
          proof (cases "map_of props ''forecast''")
            case None
            with d JObj Some p show ?thesis
              by (simp add: get_forecast_def Let_def forecast_url_of_def grid_payload_ok_def
                  properties_of_def)
          next
            case u: (Some u)
            show ?thesis
            proof (cases "truthy u")
              case False
              with d JObj Some p u show ?thesis
                by (simp add: get_forecast_def Let_def forecast_url_of_def grid_payload_ok_def
                    properties_of_def)
            next
              case t: True
              show ?thesis
              proof (cases "truthy (make_nws_request http u)")
                case False
                with d JObj Some p u t show ?thesis
                  by (simp add: get_forecast_def Let_def forecast_url_of_def grid_payload_ok_def
                      properties_of_def forecast_payload_ok_def)
              next
                case True
                with d JObj Some p u t forecast_tail_returns [OF True, of _ py] show ?thesis
                  by (simp add: get_forecast_def Let_def forecast_url_of_def grid_payload_ok_def
                      properties_of_def)
              qed
            qed
          qed
        qed (use d JObj Some in \<open>simp_all add: get_forecast_def Let_def forecast_url_of_def
              grid_payload_ok_def properties_of_def\<close>)
      qed
    qed (use d in \<open>simp_all add: get_forecast_def Let_def forecast_url_of_def
          grid_payload_ok_def properties_of_def\<close>)
  qed
qed
lemma example_alerts_url:
  "alerts_url plain ''ca'' = ''https://api.weather.gov/alerts?area=CA''"
  by (simp add: alerts_url_def NWS_API_BASE_def plain_def upper_ascii_def)

text \<open>
  C8, with the payloads it holds for. Each tool returns a string, and raises nothing, exactly
  when the fetched payloads have the expected shape with any of the sub-fields absent: the
  fetch failed or gave an empty body, or the body is an object whose \<^verbatim>\<open>properties\<close> entry
  (forecast tool) is absent or an object and whose \<^verbatim>\<open>features\<close> or \<^verbatim>\<open>periods\<close> entry is
  absent, empty, or a list of objects (for an alert, with \<^verbatim>\<open>properties\<close> absent or an
  object). In particular a failed fetch never makes a tool raise. On any other payload
  the tool raises.
\<close>

theorem tools_return_on_expected_payloads:
  "(http (JStr (alerts_url py state)) request_headers = None
      \<longrightarrow> returns_string (get_alerts py http state))
   \<and> (http (JStr (points_url latitude longitude)) request_headers = None
      \<longrightarrow> returns_string (get_forecast py http latitude longitude))
   \<and> (returns_string (get_alerts py http state) =
        alerts_payload_ok (make_nws_request http (JStr (alerts_url py state))))
   \<and> (returns_string (get_forecast py http latitude longitude) =
        grid_payload_ok http (make_nws_request http (JStr (points_url latitude longitude))))"
proof (intro conjI impI)
  assume "http (JStr (alerts_url py state)) request_headers = None"
  then show "returns_string (get_alerts py http state)"
    by (simp add: get_alerts_returns make_nws_request_None alerts_payload_ok_def)
next
  assume "http (JStr (points_url latitude longitude)) request_headers = None"
  then show "returns_string (get_forecast py http latitude longitude)"
    by (simp add: get_forecast_returns make_nws_request_None grid_payload_ok_def)
next
  show "returns_string (get_alerts py http state) =
        alerts_payload_ok (make_nws_request http (JStr (alerts_url py state)))"
    by (rule get_alerts_returns)
next
  show "returns_string (get_forecast py http latitude longitude) =
        grid_payload_ok http (make_nws_request http (JStr (points_url latitude longitude)))"
    by (rule get_forecast_returns)
qed

theorem tools_return_on_expected_payloads_witness:
  "failing_http (JStr (alerts_url plain ''ca'')) request_headers = None
   \<and> returns_string (get_alerts plain failing_http ''ca'')
   \<and> failing_http (JStr (points_url example_lat example_lon)) request_headers = None
   \<and> returns_string (get_forecast plain failing_http example_lat example_lon)
   \<and> alerts_payload_ok sparse_alerts
   \<and> returns_string (get_alerts plain sparse_alerts_http ''ca'')
   \<and> grid_payload_ok (two_step_http grid_with_url (Some sparse_forecast)) grid_with_url
   \<and> returns_string
        (get_forecast plain (two_step_http grid_with_url (Some sparse_forecast)) example_lat
           example_lon)"
proof -
  have a: "alerts_payload_ok sparse_alerts"
    by (simp add: alerts_payload_ok_def sparse_alerts_def features_ok_def)
  have g: "grid_payload_ok (two_step_http grid_with_url (Some sparse_forecast)) grid_with_url"
    by (simp add: grid_payload_ok_def properties_of_def grid_with_url_def two_step_http_def
        make_nws_request_def forecast_payload_ok_def sparse_forecast_def periods_ok_def
        example_forecast_url_def)
  have 1: "returns_string (get_alerts plain failing_http ''ca'')
      \<and> returns_string (get_forecast plain failing_http example_lat example_lon)"
    using tools_return_on_expected_payloads [where http = failing_http and py = plain
        and state = "''ca''" and latitude = example_lat and longitude = example_lon]
    by (simp add: failing_http_def)
  have 2: "returns_string (get_alerts plain sparse_alerts_http ''ca'')"
    using a tools_return_on_expected_payloads [where http = sparse_alerts_http and py = plain
        and state = "''ca''" and latitude = example_lat and longitude = example_lon]
    by (simp add: make_nws_request_def sparse_alerts_http_def example_alerts_url)
  have 3: "returns_string
      (get_forecast plain (two_step_http grid_with_url (Some sparse_forecast)) example_lat
         example_lon)"
    using g tools_return_on_expected_payloads
        [where http = "two_step_http grid_with_url (Some sparse_forecast)" and py = plain
          and state = "''ca''" and latitude = example_lat and longitude = example_lon]
    by (simp add: make_nws_request_def two_step_http_simps)
  from a g 1 2 3 show ?thesis
    by (simp add: failing_http_def)
qed

text \<open>
  The claim as stated fails on payloads outside that shape: a fetch that succeeds with an
  alert whose \<^verbatim>\<open>properties\<close> entry is \<^verbatim>\<open>null\<close>, or with a grid-point body whose
  \<^verbatim>\<open>properties\<close> entry is \<^verbatim>\<open>null\<close>, makes the tool raise \<^verbatim>\<open>AttributeError\<close> (lines 36
  and 78: \<^verbatim>\<open>None\<close> has no \<^verbatim>\<open>get\<close>).
\<close>

theorem tools_raise_on_null_properties_counterexample:
  "null_properties_http (JStr (alerts_url plain ''ca'')) request_headers =
       Some (JObj [(''features'', JList [JObj [(''properties'', JNull)]])])
   \<and> get_alerts plain null_properties_http ''ca'' = Inl AttributeError
   \<and> two_step_http grid_null_properties None (JStr (points_url example_lat example_lon))
        request_headers = Some (JObj [(''properties'', JNull)])
   \<and> get_forecast plain (two_step_http grid_null_properties None) example_lat example_lon =
       Inl AttributeError"
  by (simp add: example_alerts_url null_properties_http_def null_properties_alerts_def
      get_alerts_def make_nws_request_def format_alert_def two_step_http_simps
      grid_null_properties_def get_forecast_def forecast_url_of_def)

subsection \<open>The coordinates in the grid-point URL\<close>

lemma digit_char_digit:
  assumes "d < 10"
  shows "is_digit (digit_char d)" and "digit_value (digit_char d) = d"
    and "digit_char d \<noteq> CHR ''-''" and "digit_char d \<noteq> CHR ''.''"
proof -
  from assms have "d = 0 \<or> d = 1 \<or> d = 2 \<or> d = 3 \<or> d = 4 \<or> d = 5 \<or> d = 6 \<or> d = 7 \<or> d = 8 \<or> d = 9"
    by arith
  then show "is_digit (digit_char d)" and "digit_value (digit_char d) = d"
    and "digit_char d \<noteq> CHR ''-''" and "digit_char d \<noteq> CHR ''.''"
    by (auto simp: digit_char_def is_digit_def digit_value_def)
qed

lemma decimal_digits:
  "list_all is_digit (decimal n) \<and> decimal n \<noteq> []
   \<and> foldl (\<lambda>a c. 10 * a + digit_value c) 0 (decimal n) = n"
proof (induction n rule: decimal.induct)
  case (1 n)
  show ?case
  proof (cases "n < 10")
    case True
    then show ?thesis
      by (simp add: decimal.simps [of n] digit_char_digit)
  next
    case False
    with 1 show ?thesis
      by (simp add: decimal.simps [of n] digit_char_digit)
  qed
qed

lemma four_digits_digits:
  assumes "r < 10000"
  shows "list_all is_digit (four_digits r)" and "length (four_digits r) = 4"
    and "foldl (\<lambda>a c. 10 * a + digit_value c) q (four_digits r) = q * 10000 + r"
proof -
  show "list_all is_digit (four_digits r)" "length (four_digits r) = 4"
    by (simp_all add: four_digits_def digit_char_digit)
  have "foldl (\<lambda>a c. 10 * a + digit_value c) q (four_digits r) =
      10 * (10 * (10 * (10 * q + r div 1000 mod 10) + r div 100 mod 10) + r div 10 mod 10)
        + r mod 10"
    by (simp add: four_digits_def digit_char_digit)
  also have "\<dots> = q * 10000 + r"
  proof -
    have "r mod (10 * 10) = 10 * (r div 10 mod 10) + r mod 10"
      and "r mod (100 * 10) = 100 * (r div 100 mod 10) + r mod 100"
      and "r mod (1000 * 10) = 1000 * (r div 1000 mod 10) + r mod 1000"
      by (rule mod_mult2_eq)+
    moreover from assms have "r mod 10000 = r"
      by simp
    ultimately show ?thesis
      by simp
  qed
  finally show "foldl (\<lambda>a c. 10 * a + digit_value c) q (four_digits r) = q * 10000 + r" .
qed


lemma is_digit_not_punct:
  "\<not> is_digit (CHR ''-'')" "\<not> is_digit (CHR ''.'')"
  by (simp_all add: is_digit_def)

lemma four_decimal_text:
  assumes "r < 10000" and "s = (if neg then ''-'' else []) @ decimal q @ ''.'' @ four_digits r"
  shows "four_decimals s" and "(take 1 s = ''-'') = neg"
    and "ten_thousandths s = q * 10000 + r"
proof -
  from decimal_digits [of q] obtain c cs where d: "decimal q = c # cs"
    and all: "list_all is_digit (decimal q)"
    and val: "foldl (\<lambda>a c. 10 * a + digit_value c) 0 (decimal q) = q"
    by (cases "decimal q") auto
  from d all have c: "is_digit c" by simp
  with is_digit_not_punct have cm: "c \<noteq> CHR ''-''" by auto
  let ?t = "decimal q @ CHR ''.'' # four_digits r"
  have tw: "takeWhile is_digit ?t = decimal q"
    using all is_digit_not_punct by (simp add: list_all_iff)
  have dw: "dropWhile is_digit ?t = CHR ''.'' # four_digits r"
    using all is_digit_not_punct by (simp add: list_all_iff)
  have sign: "(take 1 s = ''-'') = neg"
    using assms(2) d cm by (cases neg) simp_all
  have t: "(if take 1 s = ''-'' then drop 1 s else s) = ?t"
    using assms(2) d cm by (cases neg) simp_all
  show "(take 1 s = ''-'') = neg" by (rule sign)
  show "four_decimals s"
    unfolding four_decimals_def t Let_def tw dw
    using d four_digits_digits(1,2) [OF assms(1)] by simp
  have "filter is_digit s = decimal q @ four_digits r"
    using assms(2) all four_digits_digits(1) [OF assms(1)] is_digit_not_punct
    by (cases neg) (simp_all add: list_all_iff)
  then show "ten_thousandths s = q * 10000 + r"
    by (simp add: ten_thousandths_def val four_digits_digits(3) [OF assms(1)])
qed

lemma format_4f_text:
  "four_decimals (format_4f (Finite neg m e))"
  "(take 1 (format_4f (Finite neg m e)) = ''-'') = neg"
  "ten_thousandths (format_4f (Finite neg m e)) = scaled4 m e"
proof -
  have r: "scaled4 m e mod 10000 < 10000" by simp
  have s: "format_4f (Finite neg m e) =
      (if neg then ''-'' else []) @ decimal (scaled4 m e div 10000) @ ''.''
        @ four_digits (scaled4 m e mod 10000)"
    by simp
  show "four_decimals (format_4f (Finite neg m e))"
    by (rule four_decimal_text(1) [OF r s])
  show "(take 1 (format_4f (Finite neg m e)) = ''-'') = neg"
    by (rule four_decimal_text(2) [OF r s])
  show "ten_thousandths (format_4f (Finite neg m e)) = scaled4 m e"
    using four_decimal_text(3) [OF r s] by simp
qed

lemma nearest_rounding:
  fixes a d :: nat
  assumes "0 < d"
  shows "2 * abs (int (if 2 * (a mod d) < d then a div d
                       else if d < 2 * (a mod d) then a div d + 1
                       else if even (a div d) then a div d else a div d + 1) * int d - int a) \<le> int d"
proof -
  have a: "int a = int (a div d) * int d + int (a mod d)"
    by (metis of_nat_add of_nat_mult div_mult_mod_eq)
  have lt: "int (a mod d) < int d"
    using assms by simp
  show ?thesis
    using a lt by (auto simp: algebra_simps)
qed

lemma scaled4_nearest:
  "nearest_ten_thousandth m e (scaled4 m e)"
proof (cases "0 \<le> e")
  case True
  then show ?thesis by (simp add: nearest_ten_thousandth_def scaled4_def)
next
  case False
  have "(0::nat) < 2 ^ nat (- e)" by simp
  from nearest_rounding [OF this, of "m * 10000"] False show ?thesis
    by (simp add: nearest_ten_thousandth_def scaled4_def Let_def)
qed

lemma example_format_4f:
  "format_4f lat_12_3 = ''12.3000''" "format_4f lon_104_9903_west = ''-104.9903''"
  by (simp_all add: lat_12_3_def lon_104_9903_west_def scaled4_def four_digits_def
      digit_char_def Let_def)

lemma get_forecast_grid_without_url:
  assumes "http (JStr (points_url latitude longitude)) request_headers = Some grid_without_url"
  shows "get_forecast py http latitude longitude =
     Inr ''Failed to get forecast URL from grid point data''"
proof -
  have g: "make_nws_request http (JStr (points_url latitude longitude)) = grid_without_url"
    using assms by (rule make_nws_request_Some)
  show ?thesis
    by (rule get_forecast_no_url [where u = JNull])
      (simp_all add: g grid_without_url_def forecast_url_of_def)
qed

text \<open>
  C6, for the coordinates it holds for. \<^verbatim>\<open>get_forecast\<close> makes its grid-point request at
  \<^verbatim>\<open>https://api.weather.gov/points/\<close>, the formatted latitude, a comma, the formatted
  longitude: a fetcher that answers at this URL takes the tool past its first step. For
  every finite coordinate \<open>(-1)\<^sup>n\<^sup>e\<^sup>g \<sqdot> m \<sqdot> 2\<^sup>e\<close> the formatted text has exactly four decimal
  places: a minus sign when the sign bit is set, digits, a point and four digits, which
  write a nearest multiple of \<open>10\<^sup>-\<^sup>4\<close> to the magnitude. So 12.3 appears as \<^verbatim>\<open>12.3000\<close>: with
  the coordinates 12.3 and -104.9903 the request goes to
  \<^verbatim>\<open>https://api.weather.gov/points/12.3000,-104.9903\<close> and not to the URL with \<^verbatim>\<open>12.3\<close>.
\<close>

theorem grid_url_four_decimals:
  "points_url latitude longitude =
       ''https://api.weather.gov/points/'' @ format_4f latitude @ '','' @ format_4f longitude
   \<and> (http (JStr (''https://api.weather.gov/points/'' @ format_4f latitude @ '',''
                   @ format_4f longitude)) request_headers = Some grid_without_url
      \<longrightarrow> get_forecast py http latitude longitude =
          Inr ''Failed to get forecast URL from grid point data'')
   \<and> four_decimals (format_4f (Finite neg m e))
   \<and> (take 1 (format_4f (Finite neg m e)) = ''-'') = neg
   \<and> nearest_ten_thousandth m e (ten_thousandths (format_4f (Finite neg m e)))
   \<and> format_4f lat_12_3 = ''12.3000''
   \<and> get_forecast py
         (only_http ''https://api.weather.gov/points/12.3000,-104.9903'' grid_without_url)
         lat_12_3 lon_104_9903_west =
       Inr ''Failed to get forecast URL from grid point data''
   \<and> get_forecast py
         (only_http ''https://api.weather.gov/points/12.3,-104.9903'' grid_without_url)
         lat_12_3 lon_104_9903_west =
       Inr (grid_failure py lat_12_3 lon_104_9903_west)"
proof (intro conjI impI)
  show u: "points_url latitude longitude =
      ''https://api.weather.gov/points/'' @ format_4f latitude @ '','' @ format_4f longitude"
    by (simp add: points_url_def NWS_API_BASE_def)
  show "four_decimals (format_4f (Finite neg m e))"
    by (rule format_4f_text)
  show "(take 1 (format_4f (Finite neg m e)) = ''-'') = neg"
    by (rule format_4f_text)
  show "nearest_ten_thousandth m e (ten_thousandths (format_4f (Finite neg m e)))"
    by (simp only: format_4f_text scaled4_nearest)
  show "format_4f lat_12_3 = ''12.3000''"
    by (rule example_format_4f)
  have x: "points_url lat_12_3 lon_104_9903_west =
      ''https://api.weather.gov/points/12.3000,-104.9903''"
    by (simp add: points_url_def NWS_API_BASE_def example_format_4f)
  show "get_forecast py
         (only_http ''https://api.weather.gov/points/12.3000,-104.9903'' grid_without_url)
         lat_12_3 lon_104_9903_west =
       Inr ''Failed to get forecast URL from grid point data''"
    by (rule get_forecast_grid_without_url) (simp add: x only_http_def)
  show "get_forecast py
         (only_http ''https://api.weather.gov/points/12.3,-104.9903'' grid_without_url)
         lat_12_3 lon_104_9903_west =
       Inr (grid_failure py lat_12_3 lon_104_9903_west)"
    by (rule get_forecast_grid_falsy) (simp add: x only_http_def make_nws_request_def)
  assume "http (JStr (''https://api.weather.gov/points/'' @ format_4f latitude @ '',''
                   @ format_4f longitude)) request_headers = Some grid_without_url"
  then show "get_forecast py http latitude longitude =
          Inr ''Failed to get forecast URL from grid point data''"
    by (intro get_forecast_grid_without_url) (simp add: u)
qed

theorem grid_url_four_decimals_witness:
  "only_http ''https://api.weather.gov/points/12.3000,-104.9903'' grid_without_url
       (JStr (''https://api.weather.gov/points/'' @ format_4f lat_12_3 @ '',''
                @ format_4f lon_104_9903_west)) request_headers = Some grid_without_url
   \<and> get_forecast plain
         (only_http ''https://api.weather.gov/points/12.3000,-104.9903'' grid_without_url)
         lat_12_3 lon_104_9903_west =
       Inr ''Failed to get forecast URL from grid point data''
   \<and> points_url lat_12_3 lon_104_9903_west =
       ''https://api.weather.gov/points/12.3000,-104.9903''
   \<and> four_decimals ''-104.9903''
   \<and> ten_thousandths ''-104.9903'' = 1049903
   \<and> nearest_ten_thousandth 7388035561836197 (- 46) 1049903"
proof -
  have v: "ten_thousandths ''-104.9903'' = 1049903"
    by (simp add: ten_thousandths_def is_digit_def digit_value_def)
  have f: "format_4f (Finite True 7388035561836197 (- 46)) = ''-104.9903''"
    using example_format_4f(2) by (simp only: lon_104_9903_west_def)
  show ?thesis
    using grid_url_four_decimals
      [where http = "only_http ''https://api.weather.gov/points/12.3000,-104.9903''
            grid_without_url"
        and py = plain and latitude = lat_12_3 and longitude = lon_104_9903_west
        and neg = True and m = 7388035561836197 and e = "- 46"]
    by (simp add: example_format_4f f v only_http_def del: format_4f.simps)
qed

text \<open>
  The claim as stated, for every input, fails on the floats that are not numbers: the
  format \<^verbatim>\<open>.4f\<close> prints a NaN as \<^verbatim>\<open>nan\<close> and the negative infinity as \<^verbatim>\<open>-inf\<close>, with no
  decimal places, and the request goes to \<^verbatim>\<open>https://api.weather.gov/points/nan,-inf\<close>.
\<close>

theorem grid_url_not_a_number_counterexample:
  "format_4f NaN = ''nan'' \<and> format_4f (Infinity True) = ''-inf''
   \<and> \<not> four_decimals ''nan'' \<and> \<not> four_decimals ''-inf''
   \<and> points_url NaN (Infinity True) = ''https://api.weather.gov/points/nan,-inf''
   \<and> get_forecast plain
         (only_http ''https://api.weather.gov/points/nan,-inf'' grid_without_url)
         NaN (Infinity True) =
       Inr ''Failed to get forecast URL from grid point data''"
proof -
  have x: "points_url NaN (Infinity True) = ''https://api.weather.gov/points/nan,-inf''"
    by (simp add: points_url_def NWS_API_BASE_def)
  have "get_forecast plain
         (only_http ''https://api.weather.gov/points/nan,-inf'' grid_without_url)
         NaN (Infinity True) =
       Inr ''Failed to get forecast URL from grid point data''"
    by (rule get_forecast_grid_without_url) (simp add: x only_http_def)
  with x show ?thesis
    by (simp add: four_decimals_def is_digit_def)
qed

end
